theory Spec2Isabelle
  imports Main
begin

section \<open>Errors\<close>

text \<open>
  Every exception the modelled Python can raise is a value; a fallible function returns
  \<open>error + 'a\<close> with \<open>Inl\<close> for the exception.
\<close>

datatype error =
    ValueError
  | KeyError
  | IndexError
  | TypeError
  | ZeroDivisionError
  | OverflowError
  | UnboundLocalError
  | FileNotFoundError
  | NotADirectoryError
  | IsADirectoryError
  | ContainsArrayError
  | OSError
  | RuntimeError
  | PermissionError

definition bind_err :: "error + 'a \<Rightarrow> ('a \<Rightarrow> error + 'b) \<Rightarrow> error + 'b" where
  "bind_err m f = (case m of Inl e \<Rightarrow> Inl e | Inr x \<Rightarrow> f x)"

section \<open>parsed\_to\_zarr.py: data\<close>

text \<open>
  A float64 element is either NaN or a number; the numbers are only moved around, never
  computed with, so their type is left open.
\<close>

datatype 'a f8 = NaN | Num 'a

text \<open>
  One cell of a variable column of the datagram data frame: a one-dimensional
  \<open>np.ndarray\<close>, or anything else (the scalar \<open>np.nan\<close> that pandas stores for a
  missing value and that \<open>reindex(fill_value=np.nan)\<close> fills in).
\<close>

datatype 'a cell = NdArray "'a f8 list" | NaNCell

text \<open>
  A data frame holds the dimensions \<open>timestamp\<close> and \<open>channel\<close> either as ordinary
  columns, beside the variable columns, or as the levels of its index (after
  \<open>set_index\<close>), where they are no longer columns. Every variable column is reindexed
  alike, so a row carries the cell of one variable column: (timestamp, channel, cell)
  in the first form, ((timestamp, channel), cell) in index order in the second.
\<close>

type_synonym ('t, 'c, 'a) column_rows = "('t \<times> 'c \<times> 'a cell) list"
type_synonym ('t, 'c, 'a) multi_frame = "(('t \<times> 'c) \<times> 'a cell) list"

datatype ('t, 'c, 'a) data_frame =
    Columns "('t, 'c, 'a) column_rows"
  | Indexed "('t, 'c, 'a) multi_frame"

section \<open>parsed\_to\_zarr.py: set\_multi\_index\<close>

text \<open>\<open>Series.unique()\<close>: the distinct values in order of first appearance.\<close>

fun unique :: "'a list \<Rightarrow> 'a list" where
  "unique [] = []"
| "unique (x # xs) = x # unique (filter (\<lambda>y. y \<noteq> x) xs)"

text \<open>
  \<open>df.reindex(multi_index, fill_value=np.nan)\<close>: pandas refuses to reindex a frame
  whose index holds a label twice (ValueError); otherwise every label of the new
  index gets the row of that label, or the fill value when there is none.
\<close>

definition reindex ::
  "('t, 'c, 'a) multi_frame \<Rightarrow> ('t \<times> 'c) list \<Rightarrow> error + ('t, 'c, 'a) multi_frame" where
  "reindex df_multi multi_index =
     (if \<not> distinct (map fst df_multi) then Inl ValueError
      else Inr (map (\<lambda>k. (k, case map_of df_multi k of Some v \<Rightarrow> v | None \<Rightarrow> NaNCell))
                 multi_index))"

definition set_index :: "('t, 'c, 'a) column_rows \<Rightarrow> ('t, 'c, 'a) multi_frame" where
  "set_index rows = map (\<lambda>(t, c, v). ((t, c), v)) rows"

text \<open>
  \<open>set_multi_index\<close> with \<open>dims = [timestamp, channel]\<close>. \<open>df[name]\<close> selects a column:
  on a frame that holds the dimensions in its index it raises KeyError.
\<close>

definition set_multi_index ::
  "('t, 'c, 'a) data_frame \<Rightarrow> error + ('t, 'c, 'a) data_frame" where
  "set_multi_index df =
     (case df of
        Indexed rows \<Rightarrow> Inl KeyError
      | Columns rows \<Rightarrow>
          let unique_dims = (unique (map fst rows), unique (map (\<lambda>r. fst (snd r)) rows));
              df_multi = set_index rows;
              multi_index = List.product (fst unique_dims) (snd unique_dims)
          in bind_err (reindex df_multi multi_index) (\<lambda>out. Inr (Indexed out)))"

text \<open>
  \<open>DataFrame.reset_index()\<close>: the index levels become columns again (a frame without
  index levels keeps its columns).
\<close>

definition reset_index :: "('t, 'c, 'a) data_frame \<Rightarrow> ('t, 'c, 'a) data_frame" where
  "reset_index df =
     (case df of
        Indexed rows \<Rightarrow> Columns (map (\<lambda>((t, c), v). (t, c, v)) rows)
      | Columns rows \<Rightarrow> Columns rows)"

section \<open>parsed\_to\_zarr.py: the chunked writer\<close>

text \<open>
  A column of the multi-indexed frame (\<open>pd_series\<close>): its name and its cells in index
  order, each with its (timestamp, channel) label.
\<close>

record ('t, 'c, 'a) pd_series =
  series_name :: string
  series_rows :: "('t, 'c, 'a) multi_frame"

text \<open>
  A zarr array of dimensions (time, channel, sample): its data, its shape and the
  chunk granularity it was declared with. A zarr group maps names to arrays.
\<close>

record 'a zarr_array =
  zdata :: "'a f8 list list list"
  zshape :: "nat \<times> nat \<times> nat"
  zchunks :: "nat \<times> nat \<times> nat"

type_synonym 'a zarr_grp = "string \<rightharpoonup> 'a zarr_array"

text \<open>
  \<open>ndarray.reshape((a, b, c))\<close> of a flat array: ValueError unless the array has
  exactly \<open>a * b * c\<close> elements.
\<close>

definition reshape3 :: "'x list \<Rightarrow> nat \<times> nat \<times> nat \<Rightarrow> error + 'x list list list" where
  "reshape3 xs shp =
     (case shp of (a, b, c) \<Rightarrow>
        if length xs \<noteq> a * b * c then Inl ValueError
        else Inr (map (\<lambda>i. map (\<lambda>j. take c (drop ((i * b + j) * c) xs)) [0..<b]) [0..<a]))"

text \<open>
  \<open>get_np_chunk\<close>: every cell that is an ndarray is taken as it is, every other cell
  is replaced by \<open>nan_array\<close>; \<open>np.concatenate\<close> of no array at all is a ValueError.
\<close>

definition get_np_chunk ::
  "'a cell list \<Rightarrow> nat \<Rightarrow> nat \<Rightarrow> nat \<Rightarrow> 'a f8 list \<Rightarrow> error + 'a f8 list list list" where
  "get_np_chunk df_chunk time_chunk num_chan size_elem nan_array =
     (if df_chunk = [] then Inl ValueError
      else
        let np_chunk =
              concat (map (\<lambda>elm. case elm of NdArray a \<Rightarrow> a | NaNCell \<Rightarrow> nan_array) df_chunk)
        in reshape3 np_chunk (time_chunk, num_chan, size_elem))"

text \<open>\<open>k\<close> consecutive slices of \<open>s\<close> elements each.\<close>

fun take_chunks :: "nat \<Rightarrow> nat \<Rightarrow> 'x list \<Rightarrow> 'x list list" where
  "take_chunks 0 s xs = []"
| "take_chunks (Suc k) s xs = take s xs # take_chunks k s (drop s xs)"

text \<open>
  Modelled from the spec: \<open>more_itertools.chunked_even\<close>, a third-party function whose
  source is not part of the repository. The spec asks for
  \<open>ceil(total_time_steps / chunk_len)\<close> groups whose sizes differ by at most 1, the
  larger groups first (5 time steps with limit 3 give 3 and 2); the source's comment
  says the same (``evenly chunk unique times so that the smallest and largest chunk
  differ by at most 1 element''). An empty input gives no chunk. With limit 0 the
  number of groups is a division by zero (ZeroDivisionError); with a negative limit no
  group size is ever reached and nothing is produced.
\<close>

definition chunked_even :: "'x list \<Rightarrow> int \<Rightarrow> error + 'x list list" where
  "chunked_even iterable n =
     (let N = length iterable in
      if N < 1 then Inr []
      else if n = 0 then Inl ZeroDivisionError
      else if n < 0 then Inr []
      else
        let num_lists = N div nat n + (if N mod nat n > 0 then 1 else 0);
            full_size = N div num_lists + (if N mod num_lists > 0 then 1 else 0);
            partial_size = full_size - 1;
            num_full = N - partial_size * num_lists;
            num_partial = num_lists - num_full
        in Inr (take_chunks num_full full_size iterable @
                take_chunks num_partial partial_size (drop (num_full * full_size) iterable)))"

text \<open>
  Lines 64 to 68 of \<open>write_chunks\<close>: the unique values of index level 0 (the
  timestamps), evenly chunked.
\<close>

definition unique_times :: "('t, 'c, 'a) pd_series \<Rightarrow> 't list" where
  "unique_times pd_series = unique (map (\<lambda>r. fst (fst r)) (series_rows pd_series))"

definition time_chunks :: "('t, 'c, 'a) pd_series \<Rightarrow> int \<Rightarrow> error + 't list list" where
  "time_chunks pd_series max_time_chunk = chunked_even (unique_times pd_series) max_time_chunk"

text \<open>
  \<open>pd_series.loc[chunk]\<close>: for each timestamp of the chunk in turn, the cells under
  that timestamp. (The timestamps of a chunk are index values, so none is missing.)
\<close>

definition loc :: "('t, 'c, 'a) pd_series \<Rightarrow> 't list \<Rightarrow> 'a cell list" where
  "loc pd_series chunk =
     concat (map (\<lambda>t. map snd (filter (\<lambda>r. fst (fst r) = t) (series_rows pd_series))) chunk)"

text \<open>
  \<open>zarr_grp.array(name, data, chunks, ...)\<close> creates the array (an existing name is
  refused); \<open>full_array.append(np_chunk)\<close> extends it along the time axis and refuses
  a chunk whose other dimensions differ.
\<close>

definition zarr_grp_array ::
  "'a zarr_grp \<Rightarrow> string \<Rightarrow> 'a f8 list list list \<Rightarrow> nat \<times> nat \<times> nat \<Rightarrow> nat \<times> nat \<times> nat
     \<Rightarrow> error + 'a zarr_grp" where
  "zarr_grp_array zarr_grp nm data shp chunks =
     (if nm \<in> dom zarr_grp then Inl ContainsArrayError
      else Inr (zarr_grp(nm \<mapsto> \<lparr>zdata = data, zshape = shp, zchunks = chunks\<rparr>)))"

definition zarr_append ::
  "'a zarr_grp \<Rightarrow> string \<Rightarrow> 'a f8 list list list \<Rightarrow> nat \<times> nat \<times> nat \<Rightarrow> error + 'a zarr_grp" where
  "zarr_append zarr_grp nm data shp =
     (case zarr_grp nm of
        None \<Rightarrow> Inl KeyError
      | Some arr \<Rightarrow>
          if snd (zshape arr) \<noteq> snd shp then Inl ValueError
          else Inr (zarr_grp(nm \<mapsto> arr\<lparr>zdata := zdata arr @ data,
                                         zshape := (fst (zshape arr) + fst shp, snd shp)\<rparr>)))"

text \<open>The loop of \<open>write_chunks\<close> over \<open>chunks[1:]\<close>.\<close>

fun append_chunks ::
  "('t, 'c, 'a) pd_series \<Rightarrow> nat \<Rightarrow> nat \<Rightarrow> 'a f8 list \<Rightarrow> 't list list \<Rightarrow> 'a zarr_grp
     \<Rightarrow> error + 'a zarr_grp" where
  "append_chunks pd_series num_chan size_elem nan_array [] zarr_grp = Inr zarr_grp"
| "append_chunks pd_series num_chan size_elem nan_array (chunk # chunks) zarr_grp =
     bind_err (get_np_chunk (loc pd_series chunk) (length chunk) num_chan size_elem nan_array)
       (\<lambda>np_chunk.
          bind_err (zarr_append zarr_grp (series_name pd_series) np_chunk
                      (length chunk, num_chan, size_elem))
            (append_chunks pd_series num_chan size_elem nan_array chunks))"

definition write_chunks ::
  "('t, 'c, 'a) pd_series \<Rightarrow> nat \<Rightarrow> nat \<Rightarrow> 'a f8 list \<Rightarrow> int \<Rightarrow> 'a zarr_grp
     \<Rightarrow> error + 'a zarr_grp" where
  "write_chunks pd_series num_chan size_elem nan_array max_time_chunk zarr_grp =
     bind_err (time_chunks pd_series max_time_chunk)
       (\<lambda>chunks.
          let chunk_len = map length chunks in
          case chunks of
            [] \<Rightarrow> Inl ValueError
          | chunk0 # rest \<Rightarrow>
              let max_chunk_len = fold max chunk_len 0 in
              bind_err (get_np_chunk (loc pd_series chunk0) (length chunk0) num_chan size_elem
                          nan_array)
                (\<lambda>np_chunk.
                   bind_err (zarr_grp_array zarr_grp (series_name pd_series) np_chunk
                               (length chunk0, num_chan, size_elem)
                               (max_chunk_len, num_chan, size_elem))
                     (append_chunks pd_series num_chan size_elem nan_array rest)))"

text \<open>
  Lines 102 to 110 of \<open>array_col_to_zarr\<close>. \<open>max_dim\<close> is a numpy integer, so
  \<open>1e6 // elem_bytes\<close> is a float floor division: for \<open>elem_bytes > 0\<close> it is the
  integer quotient (both operands are integers far below \<open>2^53\<close>), for
  \<open>elem_bytes = 0\<close> it is infinite and \<open>int\<close> of it raises OverflowError.
  \<open>num_elements // num_chan\<close> divides Python integers and raises ZeroDivisionError
  for no channel.
\<close>

definition max_num_pings :: "nat \<Rightarrow> nat \<Rightarrow> int \<Rightarrow> error + int" where
  "max_num_pings max_dim num_chan num_mb =
     (let elem_bytes = int max_dim * 8 in
      if elem_bytes = 0 then Inl OverflowError
      else
        let num_elements = num_mb * (1000000 div elem_bytes) in
        if num_chan = 0 then Inl ZeroDivisionError
        else Inr (num_elements div int num_chan))"

text \<open>The \<open>lambda\<close> of line 98: the length of an ndarray cell, 0 for any other cell.\<close>

definition shape0 :: "'a cell \<Rightarrow> nat" where
  "shape0 x = (case x of NdArray a \<Rightarrow> length a | NaNCell \<Rightarrow> 0)"

text \<open>Line 98 (\<open>max_dim\<close>) and line 107 (\<open>num_chan\<close>).\<close>

definition series_max_dim :: "('t, 'c, 'a) pd_series \<Rightarrow> nat" where
  "series_max_dim pd_series = fold max (map (\<lambda>r. shape0 (snd r)) (series_rows pd_series)) 0"

definition series_num_chan :: "('t, 'c, 'a) pd_series \<Rightarrow> nat" where
  "series_num_chan pd_series = length (unique (map (\<lambda>r. snd (fst r)) (series_rows pd_series)))"

text \<open>
  \<open>array_col_to_zarr\<close>. Of an empty column \<open>np.max\<close> is NaN, which reaches
  \<open>int(...)\<close> and raises ValueError.
\<close>

definition array_col_to_zarr ::
  "('t, 'c, 'a) pd_series \<Rightarrow> 'a zarr_grp \<Rightarrow> int \<Rightarrow> error + 'a zarr_grp" where
  "array_col_to_zarr pd_series array_grp num_mb =
     (if series_rows pd_series = [] then Inl ValueError
      else
        let max_dim = series_max_dim pd_series;
            num_chan = series_num_chan pd_series
        in bind_err (max_num_pings max_dim num_chan num_mb)
             (\<lambda>pings.
                let nan_array = replicate max_dim NaN
                in write_chunks pd_series num_chan max_dim nan_array pings array_grp))"

text \<open>
  The chunk length as the specification words it: the elements that fit the budget,
  \<open>floor(budget_mb * 1e6 / (max_sample_length * 8))\<close>, divided by the channel count
  with integer division and a minimum of 1.
\<close>

definition spec_chunk_len :: "nat \<Rightarrow> nat \<Rightarrow> int \<Rightarrow> int" where
  "spec_chunk_len max_sample_length channel_count budget_mb =
     max 1 ((budget_mb * 1000000 div (int max_sample_length * 8)) div int channel_count)"

section \<open>convert\_ui.py: the world\<close>

text \<open>
  The state that \<open>combine_files\<close> reads and changes: the file system, the paths
  that may be read but neither removed nor written (no write permission), and the
  lines printed. A step returns its result, or the exception it raised, together with the
  state it left: what was written or deleted before an exception stays so.
\<close>

type_synonym ('r, 's) io = "'s \<Rightarrow> (error + 'r) \<times> 's"

definition return_io :: "'r \<Rightarrow> ('r, 's) io" where
  "return_io x s = (Inr x, s)"

definition raise_io :: "error \<Rightarrow> ('r, 's) io" where
  "raise_io e s = (Inl e, s)"

definition bind_io :: "('r, 's) io \<Rightarrow> ('r \<Rightarrow> ('q, 's) io) \<Rightarrow> ('q, 's) io" where
  "bind_io m f s = (case m s of (Inl e, s') \<Rightarrow> (Inl e, s') | (Inr x, s') \<Rightarrow> f x s')"

text \<open>
  A netCDF group: attributes, dimensions (length, and whether unlimited) and
  one-dimensional variables (element type, dimension names, values), each in
  definition order, and the names of its compound types. \<open>'v\<close> is the type of
  attribute values and variable elements.
\<close>

record nc_dim =
  dim_len :: nat
  isunlimited :: bool

record 'v nc_var =
  var_dtype :: string
  var_dims :: "string list"
  var_data :: "'v list"

record 'v nc_group =
  ncattrs :: "(string \<times> 'v) list"
  dimensions :: "(string \<times> nc_dim) list"
  variables :: "(string \<times> 'v nc_var) list"
  cmptypes :: "string list"

text \<open>
  A converted store holds its groups by name (\<open>None\<close> is the top level). A netCDF
  store is a file, a zarr store a directory.
\<close>

type_synonym 'v store = "string option \<rightharpoonup> 'v nc_group"

datatype 'v node = File "'v store" | Dir "'v store"

record 'v world =
  fs :: "string \<rightharpoonup> 'v node"
  locked :: "string set"
  stdout :: "string list"

definition print :: "string \<Rightarrow> (unit, 'v world) io" where
  "print msg w = (Inr (), w\<lparr>stdout := stdout w @ [msg]\<rparr>)"

section \<open>convert\_ui.py: os.path\<close>

text \<open>\<open>os.path.basename\<close>, \<open>os.path.splitext\<close> and \<open>os.path.join\<close> on POSIX paths.\<close>

definition basename :: "string \<Rightarrow> string" where
  "basename p = rev (takeWhile (\<lambda>c. c \<noteq> CHR ''/'') (rev p))"

definition splitext :: "string \<Rightarrow> string \<times> string" where
  "splitext p =
     (let b = basename p;
          hd_part = take (length p - length b) p;
          lead = takeWhile (\<lambda>c. c = CHR ''.'') b;
          rest = dropWhile (\<lambda>c. c = CHR ''.'') b
      in if CHR ''.'' \<in> set rest
         then (hd_part @ lead @ rev (tl (dropWhile (\<lambda>c. c \<noteq> CHR ''.'') (rev rest))),
               CHR ''.'' # rev (takeWhile (\<lambda>c. c \<noteq> CHR ''.'') (rev rest)))
         else (p, []))"

definition join :: "string \<Rightarrow> string \<Rightarrow> string" where
  "join a b =
     (if b \<noteq> [] \<and> hd b = CHR ''/'' then b
      else if a = [] \<or> last a = CHR ''/'' then a @ b
      else a @ ''/'' @ b)"

text \<open>\<open>sub in s\<close> for strings.\<close>

fun contains :: "string \<Rightarrow> string \<Rightarrow> bool" where
  "contains [] sub = (sub = [])"
| "contains (c # cs) sub = (take (length sub) (c # cs) = sub \<or> contains cs sub)"

section \<open>convert\_ui.py: Convert\<close>

text \<open>
  The attributes of a \<open>Convert\<close> object that \<open>combine_files\<close> reads.
  \<open>__init__\<close> sets \<open>sonar_model\<close>, \<open>source_file\<close> and \<open>output_file\<close> to \<open>None\<close>.
\<close>

record convert =
  sonar_model :: "string option"
  source_file :: "string list option"
  output_file :: "string list option"
  extra_files :: "string list"

text \<open>The \<open>save_path\<close> argument: \<open>None\<close>, a \<open>str\<close>, or any other object.\<close>

datatype save_path_arg = PathNone | PathStr string | PathOther

text \<open>\<open>_check_param_consistency\<close> has no check yet and returns \<open>True\<close>.\<close>

definition check_param_consistency :: "convert \<Rightarrow> bool" where
  "check_param_consistency self = True"

text \<open>
  \<open>_remove\<close>: \<open>shutil.rmtree\<close> for a path ending in \<open>.zarr\<close>, \<open>os.remove\<close> for any other.
  Either raises when the path does not exist, is of the other kind, or may not be
  removed.
\<close>

definition remove :: "string \<Rightarrow> (unit, 'v world) io" where
  "remove path w =
     (let ext = snd (splitext path) in
      if ext = ''.zarr'' then
        (case fs w path of
           None \<Rightarrow> (Inl FileNotFoundError, w)
         | Some (File s) \<Rightarrow> (Inl NotADirectoryError, w)
         | Some (Dir s) \<Rightarrow>
             if path \<in> locked w then (Inl PermissionError, w)
             else (Inr (), w\<lparr>fs := (fs w)(path := None)\<rparr>))
      else
        (case fs w path of
           None \<Rightarrow> (Inl FileNotFoundError, w)
         | Some (Dir s) \<Rightarrow> (Inl IsADirectoryError, w)
         | Some (File s) \<Rightarrow>
             if path \<in> locked w then (Inl PermissionError, w)
             else (Inr (), w\<lparr>fs := (fs w)(path := None)\<rparr>)))"

text \<open>Lines 371 to 372: \<open>for f in src_files + self.extra_files: self._remove(f)\<close>.\<close>

fun remove_files :: "string list \<Rightarrow> (unit, 'v world) io" where
  "remove_files [] = return_io ()"
| "remove_files (f # rest) = bind_io (remove f) (\<lambda>_. remove_files rest)"

section \<open>convert\_ui.py: opening and saving groups\<close>

text \<open>
  \<open>set_open_dataset(ext)\<close> is \<open>xr.open_dataset\<close> for \<open>.nc\<close>, \<open>xr.open_zarr\<close> for
  \<open>.zarr\<close> and \<open>None\<close> for anything else, and calling \<open>None\<close> is a TypeError.
\<close>

definition open_store :: "string \<Rightarrow> string \<Rightarrow> (string \<rightharpoonup> 'v node) \<Rightarrow> error + 'v store" where
  "open_store ext path files =
     (if ext = ''.nc'' then
        (case files path of
           None \<Rightarrow> Inl FileNotFoundError
         | Some (File s) \<Rightarrow> Inr s
         | Some (Dir s) \<Rightarrow> Inl OSError)
      else if ext = ''.zarr'' then
        (case files path of
           None \<Rightarrow> Inl FileNotFoundError
         | Some (Dir s) \<Rightarrow> Inr s
         | Some (File s) \<Rightarrow> Inl OSError)
      else Inl TypeError)"

definition get_group :: "'v store \<Rightarrow> string option \<Rightarrow> error + 'v nc_group" where
  "get_group s grp = (case s grp of None \<Rightarrow> Inl OSError | Some g \<Rightarrow> Inr g)"

definition open_dataset ::
  "string \<Rightarrow> string \<Rightarrow> string option \<Rightarrow> ('v nc_group, 'v world) io" where
  "open_dataset ext path grp w =
     (bind_err (open_store ext path (fs w)) (\<lambda>s. get_group s grp), w)"

fun open_all ::
  "string \<Rightarrow> string list \<Rightarrow> string option \<Rightarrow> (string \<rightharpoonup> 'v node) \<Rightarrow> error + 'v nc_group list"
  where
  "open_all ext [] grp files = Inr []"
| "open_all ext (f # rest) grp files =
     bind_err (bind_err (open_store ext f files) (\<lambda>s. get_group s grp))
       (\<lambda>g. bind_err (open_all ext rest grp files) (\<lambda>gs. Inr (g # gs)))"

text \<open>
  \<open>set_open_mfdataset(ext)\<close>. For \<open>.nc\<close> it is \<open>xr.open_mfdataset\<close>: every file's
  group is opened and the datasets are combined by xarray; what xarray computes from
  them is the parameter \<open>xr_combine\<close> (given the \<open>combine\<close> mode). For \<open>.zarr\<close> it is
  the local \<open>open_mfzarr\<close>, which takes no \<open>concat_dim\<close> (the NMEA call passes one),
  opens the top level of every store whatever the group, and calls
  \<open>xr.combine_nested\<close> without its required \<open>concat_dim\<close>: a TypeError either way.
\<close>

definition open_mfdataset ::
  "(string \<Rightarrow> 'v nc_group list \<Rightarrow> error + 'v nc_group) \<Rightarrow> string \<Rightarrow> string list \<Rightarrow> string
     \<Rightarrow> string \<Rightarrow> bool \<Rightarrow> ('v nc_group, 'v world) io" where
  "open_mfdataset xr_combine ext files grp combine has_concat_dim w =
     (if ext = ''.nc'' then
        (bind_err (open_all ext files (Some grp) (fs w)) (xr_combine combine), w)
      else if ext = ''.zarr'' then
        (if has_concat_dim then (Inl TypeError, w)
         else (bind_err (open_all ext files None (fs w)) (\<lambda>_. Inl TypeError), w))
      else (Inl TypeError, w))"

text \<open>
  \<open>_save\<close>: \<open>to_netcdf\<close> for \<open>.nc\<close>, \<open>to_zarr\<close> for anything else. Mode \<open>w\<close> replaces
  the store by one holding just this group, mode \<open>a\<close> adds the group to the store.
  A path that may not be written is refused.
\<close>

definition save ::
  "string \<Rightarrow> 'v nc_group \<Rightarrow> string \<Rightarrow> string \<Rightarrow> string option \<Rightarrow> (unit, 'v world) io" where
  "save ext ds path mode grp w =
     (let mk = (if ext = ''.nc'' then File else Dir);
          old = (if mode = ''w'' then Inr Map.empty
                 else (case fs w path of
                         None \<Rightarrow> Inr Map.empty
                       | Some (File s) \<Rightarrow> if ext = ''.nc'' then Inr s else Inl OSError
                       | Some (Dir s) \<Rightarrow> if ext = ''.nc'' then Inl OSError else Inr s))
      in if path \<in> locked w then (Inl PermissionError, w)
         else case old of
                Inl e \<Rightarrow> (Inl e, w)
              | Inr s \<Rightarrow> (Inr (), w\<lparr>fs := (fs w)(path \<mapsto> mk (s(grp \<mapsto> ds)))\<rparr>))"

section \<open>convert\_ui.py: copy\_vendor\<close>

text \<open>
  \<open>np.empty(n, dtype)\<close> allocates without initialising: its elements are whatever the
  memory holds, here the parameter \<open>junk\<close> (the value found at each position).
\<close>

definition np_empty :: "(nat \<Rightarrow> 'v) \<Rightarrow> nat \<Rightarrow> 'v list" where
  "np_empty junk n = map junk [0..<n]"

text \<open>
  \<open>netCDF4.Dataset(path)\<close> opens an existing netCDF file; \<open>mode='a'\<close> opens it for
  writing.
\<close>

definition nc_dataset :: "string \<Rightarrow> (string \<rightharpoonup> 'v node) \<Rightarrow> error + 'v store" where
  "nc_dataset path files =
     (case files path of
        None \<Rightarrow> Inl FileNotFoundError
      | Some (File s) \<Rightarrow> Inr s
      | Some (Dir s) \<Rightarrow> Inl OSError)"

definition empty_group :: "'v nc_group" where
  "empty_group = \<lparr>ncattrs = [], dimensions = [], variables = [], cmptypes = []\<rparr>"

text \<open>
  The netCDF4 calls of \<open>copy_vendor\<close> on the target group \<open>vdr\<close>; creating a type,
  dimension or variable under a name already in use is refused.
\<close>

definition createCompoundType :: "string \<Rightarrow> (unit, 'v nc_group) io" where
  "createCompoundType nm g =
     (if nm \<in> set (cmptypes g) then (Inl RuntimeError, g)
      else (Inr (), g\<lparr>cmptypes := cmptypes g @ [nm]\<rparr>))"

definition setncatts :: "(string \<times> 'v) list \<Rightarrow> (unit, 'v nc_group) io" where
  "setncatts atts g =
     (Inr (), g\<lparr>ncattrs := filter (\<lambda>kv. fst kv \<notin> fst ` set atts) (ncattrs g) @ atts\<rparr>)"

definition createDimension :: "string \<Rightarrow> nat option \<Rightarrow> (unit, 'v nc_group) io" where
  "createDimension k sz g =
     (if k \<in> fst ` set (dimensions g) then (Inl RuntimeError, g)
      else (Inr (), g\<lparr>dimensions := dimensions g @
              [(k, case sz of None \<Rightarrow> \<lparr>dim_len = 0, isunlimited = True\<rparr>
                              | Some n \<Rightarrow> \<lparr>dim_len = n, isunlimited = False\<rparr>)]\<rparr>))"

text \<open>
  \<open>var = vdr.createVariable(k, complex64_t, dims)\<close> followed by \<open>var[:] = data\<close>: the
  variable holds \<open>data\<close>, and writing it extends an unlimited first dimension.
\<close>

definition createVariable ::
  "string \<Rightarrow> string \<Rightarrow> string list \<Rightarrow> 'v list \<Rightarrow> (unit, 'v nc_group) io" where
  "createVariable k dtype dims data g =
     (if k \<in> fst ` set (variables g) then (Inl RuntimeError, g)
      else if \<not> set dims \<subseteq> fst ` set (dimensions g) then (Inl ValueError, g)
      else (Inr (),
            g\<lparr>variables := variables g @ [(k, \<lparr>var_dtype = dtype, var_dims = dims, var_data = data\<rparr>)],
              dimensions := map (\<lambda>(d, n). if dims \<noteq> [] \<and> d = hd dims \<and> isunlimited n
                                           then (d, n\<lparr>dim_len := max (dim_len n) (length data)\<rparr>)
                                           else (d, n)) (dimensions g)\<rparr>))"

text \<open>Lines 277 to 278, the loop over \<open>ds_vend.dimensions.items()\<close>.\<close>

fun copy_dimensions :: "(string \<times> nc_dim) list \<Rightarrow> (unit, 'v nc_group) io" where
  "copy_dimensions [] = return_io ()"
| "copy_dimensions ((k, v) # rest) =
     bind_io (createDimension k (if \<not> isunlimited v then Some (dim_len v) else None))
       (\<lambda>_. copy_dimensions rest)"

text \<open>
  Lines 281 to 284, the loop over \<open>ds_vend.variables.items()\<close>. \<open>len(v)\<close> is the
  length of the variable (a TypeError for a variable without dimension); the data
  written is \<open>np.empty(len(v), complex64)\<close>.
\<close>

fun copy_variables :: "(nat \<Rightarrow> 'v) \<Rightarrow> (string \<times> 'v nc_var) list \<Rightarrow> (unit, 'v nc_group) io" where
  "copy_variables junk [] = return_io ()"
| "copy_variables junk ((k, v) # rest) =
     bind_io (if var_dims v = [] then raise_io TypeError
              else createVariable k ''complex64'' (var_dims v) (np_empty junk (length (var_data v))))
       (\<lambda>_. copy_variables junk rest)"

definition copy_vendor :: "(nat \<Rightarrow> 'v) \<Rightarrow> string \<Rightarrow> string \<Rightarrow> (unit, 'v world) io" where
  "copy_vendor junk src_file trg_file w =
     (case nc_dataset src_file (fs w) of
        Inl e \<Rightarrow> (Inl e, w)
      | Inr src \<Rightarrow>
          (case (if trg_file \<in> locked w then Inl PermissionError
                 else nc_dataset trg_file (fs w)) of
             Inl e \<Rightarrow> (Inl e, w)
           | Inr trg \<Rightarrow>
               (case src (Some ''Vendor'') of
                  None \<Rightarrow> (Inl KeyError, w)
                | Some ds_vend \<Rightarrow>
                    let vdr0 = (case trg (Some ''Vendor'') of None \<Rightarrow> empty_group | Some g \<Rightarrow> g);
                        (r, vdr) =
                          bind_io (createCompoundType ''complex64'')
                            (\<lambda>_. bind_io (setncatts (ncattrs ds_vend))
                              (\<lambda>_. bind_io (copy_dimensions (dimensions ds_vend))
                                (\<lambda>_. copy_variables junk (variables ds_vend)))) vdr0
                    in (r, w\<lparr>fs := (fs w)(trg_file \<mapsto> File (trg(Some ''Vendor'' \<mapsto> vdr)))\<rparr>))))"

section \<open>convert\_ui.py: combine\_files\<close>

definition split_into_groups :: "convert \<Rightarrow> string list \<Rightarrow> string list list" where
  "split_into_groups self files =
     (if sonar_model self = Some ''EK80''
      then [filter (\<lambda>f. \<not> contains f ''_cw'') files, filter (\<lambda>f. contains f ''_cw'') files]
      else [files])"

text \<open>\<open>file_group[0]\<close> and \<open>src_files[0]\<close>.\<close>

definition first_file :: "string list \<Rightarrow> (string, 's) io" where
  "first_file file_group = (case file_group of [] \<Rightarrow> raise_io IndexError | f # _ \<Rightarrow> return_io f)"

definition first_src :: "string list option \<Rightarrow> (string, 's) io" where
  "first_src src_files = (case src_files of None \<Rightarrow> raise_io TypeError | Some l \<Rightarrow> first_file l)"

text \<open>
  The two ways a group reaches the combined store: opened from the first file of the
  group and saved, or opened from all files at once and saved in mode \<open>a\<close>.
  \<open>open_ext\<close> is the extension that chose the opening functions before the loop,
  \<open>ext\<close> the one \<open>_save\<close> is given.
\<close>

definition copy_first ::
  "string \<Rightarrow> string \<Rightarrow> string list \<Rightarrow> string option \<Rightarrow> string \<Rightarrow> string \<Rightarrow> (unit, 'v world) io"
  where
  "copy_first open_ext ext file_group grp save_path mode =
     bind_io (first_file file_group)
       (\<lambda>f. bind_io (open_dataset open_ext f grp) (\<lambda>ds. save ext ds save_path mode grp))"

definition concat_time ::
  "(string \<Rightarrow> 'v nc_group list \<Rightarrow> error + 'v nc_group) \<Rightarrow> string \<Rightarrow> string \<Rightarrow> string list
     \<Rightarrow> string \<Rightarrow> string \<Rightarrow> bool \<Rightarrow> string \<Rightarrow> (unit, 'v world) io" where
  "concat_time xr_combine open_ext ext file_group grp combine has_concat_dim save_path =
     bind_io (open_mfdataset xr_combine open_ext file_group grp combine has_concat_dim)
       (\<lambda>ds. save ext ds save_path ''a'' (Some grp))"

text \<open>Lines 326 to 367: the body of the loop over the file groups.\<close>

definition combine_group ::
  "(string \<Rightarrow> 'v nc_group list \<Rightarrow> error + 'v nc_group) \<Rightarrow> (nat \<Rightarrow> 'v) \<Rightarrow> convert \<Rightarrow> string
     \<Rightarrow> string \<Rightarrow> string \<Rightarrow> string list \<Rightarrow> (unit, 'v world) io" where
  "combine_group xr_combine junk self open_ext ext save_path file_group =
     bind_io (copy_first open_ext ext file_group None save_path ''w'')
     (\<lambda>_. bind_io (copy_first open_ext ext file_group (Some ''Provenance'') save_path ''a'')
     (\<lambda>_. bind_io (copy_first open_ext ext file_group (Some ''Sonar'') save_path ''a'')
     (\<lambda>_. bind_io (concat_time xr_combine open_ext ext file_group ''Beam'' ''by_coords'' False
                     save_path)
     (\<lambda>_. bind_io
             (if sonar_model self = Some ''AZFP''
              then concat_time xr_combine open_ext ext file_group ''Environment'' ''by_coords''
                     False save_path
              else copy_first open_ext ext file_group (Some ''Environment'') save_path ''a'')
     (\<lambda>_. bind_io
             (if sonar_model self = Some ''AZFP''
              then copy_first open_ext ext file_group (Some ''Platform'') save_path ''a''
              else concat_time xr_combine open_ext ext file_group ''Platform'' ''by_coords''
                     False save_path)
     (\<lambda>_. bind_io
             (if sonar_model self = Some ''AZFP''
              then concat_time xr_combine open_ext ext file_group ''Vendor'' ''by_coords''
                     False save_path
              else return_io ())
     (\<lambda>_. bind_io
             (if sonar_model self = Some ''EK80'' \<or> sonar_model self = Some ''EK60''
              then concat_time xr_combine open_ext ext file_group ''Platform/NMEA'' ''nested''
                     True save_path
              else return_io ())
     (\<lambda>_. if sonar_model self = Some ''EK80''
           then bind_io (first_file file_group) (\<lambda>f. copy_vendor junk f save_path)
           else return_io ()))))))))"

text \<open>
  Lines 321 to 325: the loop over \<open>enumerate(file_groups)\<close>; the iteration of index 1
  renames \<open>save_path\<close> and rebinds \<open>ext\<close>.
\<close>

fun combine_groups ::
  "(string \<Rightarrow> 'v nc_group list \<Rightarrow> error + 'v nc_group) \<Rightarrow> (nat \<Rightarrow> 'v) \<Rightarrow> convert \<Rightarrow> string
     \<Rightarrow> nat \<Rightarrow> string list list \<Rightarrow> string \<times> string \<Rightarrow> (unit, 'v world) io" where
  "combine_groups xr_combine junk self open_ext i [] sp = return_io ()"
| "combine_groups xr_combine junk self open_ext i (file_group # rest) sp =
     (let sp' = (if i = 1
                 then (fst (splitext (fst sp)) @ ''_cw'' @ snd (splitext (fst sp)),
                       snd (splitext (fst sp)))
                 else sp)
      in bind_io (combine_group xr_combine junk self open_ext (snd sp') (fst sp') file_group)
           (\<lambda>_. combine_groups xr_combine junk self open_ext (Suc i) rest sp'))"

text \<open>Lines 306 to 317: the path of the combined store and its extension.\<close>

definition resolve_save_path ::
  "string list option \<Rightarrow> save_path_arg \<Rightarrow> (string \<times> string, 's) io" where
  "resolve_save_path src_files save_path =
     (case save_path of
        PathNone \<Rightarrow>
          bind_io (first_src src_files)
            (\<lambda>f. return_io (fst (splitext f) @ ''[combined]'' @ snd (splitext f), snd (splitext f)))
      | PathStr p \<Rightarrow>
          if snd (splitext p) = [] then
            bind_io (first_src src_files)
              (\<lambda>f. let file = basename f
                    in return_io (join p (fst (splitext file) @ ''[combined]'' @ snd (splitext file)),
                                  snd (splitext file)))
          else return_io (p, snd (splitext p))
      | PathOther \<Rightarrow> raise_io ValueError)"

text \<open>
  \<open>combine_files\<close>. \<open>check\<close> is the method \<open>self._check_param_consistency\<close> that the
  call dispatches to; \<open>file_groups\<close> is \<open>None\<close> while the local variable is unassigned.
  \<open>len(None)\<close> and \<open>None + list\<close> are TypeErrors.
\<close>

definition combine_files_by ::
  "(convert \<Rightarrow> bool) \<Rightarrow> (string \<Rightarrow> 'v nc_group list \<Rightarrow> error + 'v nc_group) \<Rightarrow> (nat \<Rightarrow> 'v)
     \<Rightarrow> convert \<Rightarrow> string list option \<Rightarrow> save_path_arg \<Rightarrow> bool \<Rightarrow> (bool, 'v world) io" where
  "combine_files_by check xr_combine junk self src_files save_path remove_orig =
     (case source_file self of
        None \<Rightarrow> raise_io TypeError
      | Some sf \<Rightarrow>
          if length sf < 2 then
            bind_io (print ''Combination did not occur as there is only 1 source file'')
              (\<lambda>_. return_io False)
          else if \<not> check self then
            bind_io (print ''Combination did not occur as there are inconsistent parameters'')
              (\<lambda>_. return_io False)
          else
            bind_io (print ''combining files...'')
            (\<lambda>_. let src_files' = (case src_files of None \<Rightarrow> output_file self | Some l \<Rightarrow> Some l)
                  in bind_io
                       (if sonar_model self = Some ''EK80''
                        then (case src_files' of
                                None \<Rightarrow> raise_io TypeError
                              | Some l \<Rightarrow> return_io (Some (split_into_groups self (l @ extra_files self))))
                        else return_io None)
                     (\<lambda>file_groups. bind_io (resolve_save_path src_files' save_path)
                     (\<lambda>sp. bind_io
                             (case file_groups of
                                None \<Rightarrow> raise_io UnboundLocalError
                              | Some gs \<Rightarrow> combine_groups xr_combine junk self (snd sp) 0 gs sp)
                     (\<lambda>_. bind_io
                             (if remove_orig
                              then (case src_files' of
                                      None \<Rightarrow> raise_io TypeError
                                    | Some l \<Rightarrow> remove_files (l @ extra_files self))
                              else return_io ())
                     (\<lambda>_. return_io True))))))"

definition combine_files ::
  "(string \<Rightarrow> 'v nc_group list \<Rightarrow> error + 'v nc_group) \<Rightarrow> (nat \<Rightarrow> 'v)
     \<Rightarrow> convert \<Rightarrow> string list option \<Rightarrow> save_path_arg \<Rightarrow> bool \<Rightarrow> (bool, 'v world) io" where
  "combine_files = combine_files_by check_param_consistency"

section \<open>Example inputs\<close>

text \<open>
  A multi-file combine as xarray could compute it, for the concrete runs below: the
  first dataset with, for each of its variables, the values of all datasets in order.
\<close>

definition xr_concat :: "string \<Rightarrow> nat nc_group list \<Rightarrow> error + nat nc_group" where
  "xr_concat combine ds =
     (case ds of
        [] \<Rightarrow> Inl OSError
      | d # rest \<Rightarrow>
          Inr (d\<lparr>variables :=
                  map (\<lambda>(k, v). (k, v\<lparr>var_data :=
                         concat (map (\<lambda>g. case map_of (variables g) k of
                                               None \<Rightarrow> [] | Some u \<Rightarrow> var_data u) ds)\<rparr>))
                      (variables d)\<rparr>))"

text \<open>Uninitialised memory for the concrete runs: position \<open>i\<close> holds \<open>99 + i\<close>.\<close>

definition ex_junk :: "nat \<Rightarrow> nat" where
  "ex_junk i = 99 + i"

definition ex_data :: "nat \<Rightarrow> nat nc_group" where
  "ex_data x =
     \<lparr>ncattrs = [],
      dimensions = [(''ping_time'', \<lparr>dim_len = 1, isunlimited = False\<rparr>)],
      variables = [(''v'', \<lparr>var_dtype = ''f8'', var_dims = [''ping_time''], var_data = [x]\<rparr>)],
      cmptypes = []\<rparr>"

definition ex_vendor :: "nat \<Rightarrow> nat nc_group" where
  "ex_vendor x =
     \<lparr>ncattrs = [(''decimation'', 4)],
      dimensions = [(''n'', \<lparr>dim_len = 2, isunlimited = False\<rparr>)],
      variables = [(''filter'', \<lparr>var_dtype = ''complex64'', var_dims = [''n''],
                                 var_data = [x, x + 1]\<rparr>)],
      cmptypes = [''complex64'']\<rparr>"

text \<open>A converted EK80 store with all the groups the combine reads.\<close>

definition ex_store :: "nat \<Rightarrow> nat store" where
  "ex_store x =
     [None \<mapsto> ex_data x, Some ''Provenance'' \<mapsto> ex_data x, Some ''Sonar'' \<mapsto> ex_data x,
      Some ''Beam'' \<mapsto> ex_data x, Some ''Environment'' \<mapsto> ex_data x,
      Some ''Platform'' \<mapsto> ex_data x, Some ''Platform/NMEA'' \<mapsto> ex_data x,
      Some ''Vendor'' \<mapsto> ex_vendor x]"

definition ex_world :: "nat world" where
  "ex_world =
     \<lparr>fs = [''a.nc'' \<mapsto> File (ex_store 10), ''b.nc'' \<mapsto> File (ex_store 20),
            ''a_cw.nc'' \<mapsto> File (ex_store 30), ''b_cw.nc'' \<mapsto> File (ex_store 40)],
      locked = {}, stdout = []\<rparr>"

text \<open>The same with \<open>b.nc\<close> readable but not removable.\<close>

definition ex_world_locked :: "nat world" where
  "ex_world_locked = ex_world\<lparr>locked := {''b.nc''}\<rparr>"

text \<open>
  Two EK80 raw files converted to \<open>a.nc\<close> and \<open>b.nc\<close>, with the extra files of their
  continuous-wave data.
\<close>

definition ex_convert :: convert where
  "ex_convert =
     \<lparr>sonar_model = Some ''EK80'', source_file = Some [''a.raw'', ''b.raw''],
      output_file = Some [''a.nc'', ''b.nc''],
      extra_files = [''a_cw.nc'', ''b_cw.nc'']\<rparr>"

definition ex_convert_ek60 :: convert where
  "ex_convert_ek60 = ex_convert\<lparr>sonar_model := Some ''EK60'', extra_files := []\<rparr>"

text \<open>The Vendor group of the netCDF store at a path, and whether a path exists.\<close>

definition vendor_of :: "'v world \<Rightarrow> string \<Rightarrow> 'v nc_group option" where
  "vendor_of w path = (case fs w path of Some (File s) \<Rightarrow> s (Some ''Vendor'') | _ \<Rightarrow> None)"

definition path_exists :: "'v world \<Rightarrow> string \<Rightarrow> bool" where
  "path_exists w path = (case fs w path of None \<Rightarrow> False | Some n \<Rightarrow> True)"

text \<open>
  Pings of two channels at timestamps 1 to 5, the one of channel 2 at timestamp 3
  missing; every sample array has length 2.
\<close>

definition ex_df :: "(nat, nat, nat) column_rows" where
  "ex_df =
     [(1, 1, NdArray [Num 11, Num 12]), (1, 2, NdArray [Num 13, Num 14]),
      (2, 1, NdArray [Num 21, Num 22]), (2, 2, NdArray [Num 23, Num 24]),
      (3, 1, NdArray [Num 31, Num 32]),
      (4, 1, NdArray [Num 41, Num 42]), (4, 2, NdArray [Num 43, Num 44]),
      (5, 1, NdArray [Num 51, Num 52]), (5, 2, NdArray [Num 53, Num 54])]"

definition ex_padded :: "(nat, nat, nat) multi_frame" where
  "ex_padded =
     [((1, 1), NdArray [Num 11, Num 12]), ((1, 2), NdArray [Num 13, Num 14]),
      ((2, 1), NdArray [Num 21, Num 22]), ((2, 2), NdArray [Num 23, Num 24]),
      ((3, 1), NdArray [Num 31, Num 32]), ((3, 2), NaNCell),
      ((4, 1), NdArray [Num 41, Num 42]), ((4, 2), NdArray [Num 43, Num 44]),
      ((5, 1), NdArray [Num 51, Num 52]), ((5, 2), NdArray [Num 53, Num 54])]"

definition ex_series :: "(nat, nat, nat) pd_series" where
  "ex_series = \<lparr>series_name = ''power'', series_rows = ex_padded\<rparr>"

section \<open>Store Combine Engine: the guards of combine\_files\<close>

text \<open>
  Claim C6, as the code has it. The first guard of \<open>combine_files\<close> counts the raw
  source files of the object (\<open>len(self.source_file)\<close>), not the stores to combine.
  When the source files are set and fewer than 2, or when the consistency check of the
  conversion parameters fails, the combine is skipped: the call returns \<open>False\<close> and
  raises nothing, one line reporting the reason is printed, and the file system is
  left as it was, so no combined output is written and no source file is deleted. The
  check is the method the call dispatches to; the one of class \<open>Convert\<close> always
  passes.
\<close>

theorem combine_files_skipped:
  assumes "source_file self = Some sf" and "length sf < 2 \<or> \<not> check self"
  shows "combine_files_by check xr_combine junk self src_files save_path remove_orig w =
           (Inr False,
            w\<lparr>stdout := stdout w @
               [if length sf < 2
                then ''Combination did not occur as there is only 1 source file''
                else ''Combination did not occur as there are inconsistent parameters'']\<rparr>)"
  using assms
  by (auto simp: combine_files_by_def bind_io_def print_def return_io_def)

theorem combine_files_skipped_witness:
  "combine_files_by check_param_consistency (\<lambda>m ds. Inl ValueError) (\<lambda>i. 0::nat)
      \<lparr>sonar_model = Some ''EK80'', source_file = Some [''a.raw''],
       output_file = Some [''a.nc''], extra_files = []\<rparr>
      None PathNone True \<lparr>fs = [''a.nc'' \<mapsto> File Map.empty], locked = {}, stdout = []\<rparr>
   = (Inr False, \<lparr>fs = [''a.nc'' \<mapsto> File Map.empty], locked = {},
                  stdout = [''Combination did not occur as there is only 1 source file'']\<rparr>)
   \<and>
   combine_files_by (\<lambda>c. False) (\<lambda>m ds. Inl ValueError) (\<lambda>i. 0::nat)
      \<lparr>sonar_model = Some ''EK80'', source_file = Some [''a.raw'', ''b.raw''],
       output_file = Some [''a.nc'', ''b.nc''], extra_files = []\<rparr>
      None PathNone True \<lparr>fs = [''a.nc'' \<mapsto> File Map.empty], locked = {}, stdout = []\<rparr>
   = (Inr False, \<lparr>fs = [''a.nc'' \<mapsto> File Map.empty], locked = {},
                  stdout = [''Combination did not occur as there are inconsistent parameters'']\<rparr>)"
  using combine_files_skipped [of "\<lparr>sonar_model = Some ''EK80'', source_file = Some [''a.raw''],
       output_file = Some [''a.nc''], extra_files = []\<rparr>" "[''a.raw'']" check_param_consistency
       "(\<lambda>m ds. Inl ValueError)" "(\<lambda>i. 0::nat)" None PathNone True
       "\<lparr>fs = [''a.nc'' \<mapsto> File Map.empty], locked = {}, stdout = []\<rparr>"]
     combine_files_skipped [of "\<lparr>sonar_model = Some ''EK80'',
       source_file = Some [''a.raw'', ''b.raw''],
       output_file = Some [''a.nc'', ''b.nc''], extra_files = []\<rparr>" "[''a.raw'', ''b.raw'']"
       "\<lambda>c. False" "(\<lambda>m ds. Inl ValueError)" "(\<lambda>i. 0::nat)" None PathNone True
       "\<lparr>fs = [''a.nc'' \<mapsto> File Map.empty], locked = {}, stdout = []\<rparr>"]
  by simp

text \<open>
  The claim as stated fails. Invoked with a single source store (\<open>src_files =
  ['a.nc']\<close>) on an object that has two raw source files, the guard passes: the combine
  runs, writes \<open>a[combined].nc\<close>, deletes \<open>a.nc\<close> and returns \<open>True\<close>. With a single
  store and sonar model EK60 the call raises UnboundLocalError, and on an object whose
  source files were never set it raises TypeError (\<open>len(None)\<close>) instead of skipping.
\<close>

theorem combine_files_one_store_not_skipped:
  "fst (combine_files xr_concat ex_junk ex_convert (Some [''a.nc'']) PathNone True ex_world)
     = Inr True \<and>
   path_exists (snd (combine_files xr_concat ex_junk ex_convert (Some [''a.nc'']) PathNone True
                       ex_world)) ''a[combined].nc'' \<and>
   \<not> path_exists (snd (combine_files xr_concat ex_junk ex_convert (Some [''a.nc'']) PathNone
                         True ex_world)) ''a.nc'' \<and>
   fst (combine_files xr_concat ex_junk ex_convert_ek60 (Some [''a.nc'']) PathNone True ex_world)
     = Inl UnboundLocalError \<and>
   fst (combine_files xr_concat ex_junk (ex_convert\<lparr>source_file := None\<rparr>) (Some [''a.nc''])
          PathNone True ex_world) = Inl TypeError"
  by code_simp

section \<open>Chunk Partitioner: the chunk length\<close>

text \<open>
  Claim C3, as the code has it. For a maximum sample length of at least 1 and at least
  one channel, the number of pings per chunk is
  \<open>(budget_mb * floor(1e6 / (max_sample_length * 8))) div channel_count\<close>: the budget
  multiplies the already floored number of elements per megabyte, and no minimum is
  applied, so the result can be 0.
\<close>

theorem max_num_pings_value:
  assumes "1 \<le> max_dim" and "1 \<le> num_chan"
  shows "max_num_pings max_dim num_chan num_mb =
           Inr ((num_mb * (1000000 div (int max_dim * 8))) div int num_chan)"
  using assms by (simp add: max_num_pings_def Let_def)

theorem max_num_pings_value_witness:
  "(1::nat) \<le> 3 \<and> (1::nat) \<le> 2 \<and> max_num_pings 3 2 5 = Inr 104165"
  using max_num_pings_value [of 3 2 5] by simp

text \<open>
  The claim as stated fails: with a budget of 3 MB, samples of length 3 and one channel
  the code computes 124998 pings where the stated formula gives 125000; with a budget
  of 1 MB, samples of length 1 and 200000 channels the code computes 0 where the
  stated minimum gives 1.
\<close>

theorem max_num_pings_not_spec_chunk_len:
  "max_num_pings 3 1 3 = Inr 124998 \<and> spec_chunk_len 3 1 3 = 125000 \<and>
   max_num_pings 1 200000 1 = Inr 0 \<and> spec_chunk_len 1 200000 1 = 1"
  by (simp add: max_num_pings_def spec_chunk_len_def Let_def)

section \<open>Chunk Partitioner: degenerate input\<close>

lemma unique_Nil_iff: "unique xs = [] \<longleftrightarrow> xs = []"
  by (cases xs) auto

text \<open>
  Claim C8. When the maximum sample length of a column is 0 (every cell is absent or
  an empty array) or the column has no channel, \<open>array_col_to_zarr\<close> raises an error
  and returns no group, so no chunk is computed or written: OverflowError from
  \<open>int(1e6 // 0)\<close> for length 0, ValueError for the empty column (the only one
  without a channel).
\<close>

theorem array_col_to_zarr_degenerate:
  assumes "series_max_dim s = 0 \<or> series_num_chan s = 0"
  shows "array_col_to_zarr s array_grp num_mb =
           Inl (if series_rows s = [] then ValueError else OverflowError)"
  using assms
  by (auto simp: array_col_to_zarr_def series_num_chan_def unique_Nil_iff max_num_pings_def
                 bind_err_def Let_def)


theorem array_col_to_zarr_degenerate_witness:
  "array_col_to_zarr \<lparr>series_name = ''power'',
       series_rows = [((0::nat, 1::nat), NdArray []), ((0, 2), NaNCell)]\<rparr>
     (Map.empty :: nat zarr_grp) 1 = Inl OverflowError
   \<and> array_col_to_zarr \<lparr>series_name = ''power'', series_rows = ([] :: (nat, nat, nat) multi_frame)\<rparr>
     (Map.empty :: nat zarr_grp) 1 = Inl ValueError"
  using array_col_to_zarr_degenerate [of "\<lparr>series_name = ''power'',
       series_rows = [((0::nat, 1::nat), NdArray []), ((0, 2), NaNCell)]\<rparr>" "Map.empty :: nat zarr_grp" 1]
    array_col_to_zarr_degenerate [of "\<lparr>series_name = ''power'', series_rows = ([] :: (nat, nat, nat) multi_frame)\<rparr>"
       "Map.empty :: nat zarr_grp" 1]
  by (simp add: series_max_dim_def series_num_chan_def shape0_def)


section \<open>Ragged Array Writer: padding\<close>

text \<open>
  An absent cell is replaced by the NaN array of the reference length: two pings of
  one channel, the second absent, are written as a (2, 1, 2) array whose second row is
  NaN.
\<close>

lemma array_col_to_zarr_absent_cell:
  "array_col_to_zarr \<lparr>series_name = ''power'',
       series_rows = [((0::nat, 1::nat), NdArray [Num (1::nat), Num 2]), ((1, 1), NaNCell)]\<rparr>
     Map.empty 1 =
   Inr [''power'' \<mapsto> \<lparr>zdata = [[[Num 1, Num 2]], [[NaN, NaN]]], zshape = (2, 1, 2),
                        zchunks = (2, 1, 2)\<rparr>]"
  by (simp add: array_col_to_zarr_def series_max_dim_def series_num_chan_def shape0_def
        max_num_pings_def write_chunks_def time_chunks_def unique_times_def chunked_even_def
        get_np_chunk_def
        reshape3_def loc_def bind_err_def Let_def zarr_grp_array_def numeral_2_eq_2 upt_rec)


text \<open>
  Claim C1 asks that a cell shorter than the reference length be padded with NaN as
  well. \<open>get_np_chunk\<close> takes every ndarray cell as it is (its comment notes the
  padding as still to do), so the concatenation is too short for the reshape: with two
  pings of one channel holding 2 and 1 samples, \<open>array_col_to_zarr\<close> raises ValueError
  and writes nothing.
\<close>

theorem array_col_to_zarr_short_cell:
  "array_col_to_zarr \<lparr>series_name = ''power'',
       series_rows = [((0::nat, 1::nat), NdArray [Num (1::nat), Num 2]), ((1, 1), NdArray [Num 3])]\<rparr>
     Map.empty 1 = Inl ValueError"
  by (simp add: array_col_to_zarr_def series_max_dim_def series_num_chan_def shape0_def
        max_num_pings_def write_chunks_def time_chunks_def unique_times_def chunked_even_def
        get_np_chunk_def
        reshape3_def loc_def bind_err_def Let_def)


section \<open>Chunk Partitioner: even chunks\<close>

lemma concat_take_chunks: "concat (take_chunks k s xs) = take (k * s) xs"
proof (induction k arbitrary: xs)
  case 0
  show ?case by simp
next
  case (Suc k)
  have "take s xs @ take (k * s) (drop s xs) = take (s + k * s) xs"
    by (simp add: take_add)
  with Suc show ?case by simp
qed


lemma length_take_chunks:
  "k * s \<le> length xs \<Longrightarrow> map length (take_chunks k s xs) = replicate k s"
proof (induction k arbitrary: xs)
  case 0
  show ?case by simp
next
  case (Suc k)
  then have "s \<le> length xs" and "k * s \<le> length (drop s xs)" by auto
  with Suc.IH show ?case by simp
qed


lemma ceil_div_bounds:
  fixes N L :: nat
  assumes "1 \<le> N" and "1 \<le> L"
  defines "F \<equiv> N div L + (if N mod L > 0 then 1 else 0)"
  shows "1 \<le> F" and "(F - 1) * L < N" and "N \<le> F * L"
proof -
  have eq: "N = (N div L) * L + N mod L" by simp
  show "1 \<le> F"
  proof (cases "N mod L > 0")
    case True
    then show ?thesis by (simp add: F_def)
  next
    case False
    then have "N = (N div L) * L" using eq by simp
    with assms(1) have "N div L \<noteq> 0" by (metis mult_0 not_one_le_zero)
    then show ?thesis by (simp add: F_def)
  qed
  show "(F - 1) * L < N"
  proof (cases "N mod L > 0")
    case True
    then have "(F - 1) * L = (N div L) * L" by (simp add: F_def)
    also have "\<dots> < N" using True eq by linarith
    finally show ?thesis .
  next
    case False
    then have m: "N = (N div L) * L" using eq by simp
    with assms(1) have nz: "N div L \<noteq> 0" by (metis mult_0 not_one_le_zero)
    have "(F - 1) * L = (N div L - 1) * L" using False by (simp add: F_def)
    also have "\<dots> = (N div L) * L - L" by (simp add: diff_mult_distrib)
    also have "\<dots> < N" using m nz assms(2)
      by (metis One_nat_def Suc_le_lessD assms(1) diff_less less_le_trans)
    finally show ?thesis .
  qed
  show "N \<le> F * L"
  proof (cases "N mod L > 0")
    case True
    have "N mod L < L" using assms(2) by simp
    then have "N \<le> (N div L) * L + L" using eq by linarith
    then show ?thesis using True by (simp add: F_def)
  next
    case False
    then show ?thesis using eq by (simp add: F_def)
  qed
qed


lemma chunked_even_shape:
  fixes xs :: "'x list"
  assumes "1 \<le> length xs" and "1 \<le> n"
  shows "\<exists>chunks F NF L. chunked_even xs n = Inr chunks \<and> concat chunks = xs \<and> 1 \<le> F \<and>
           1 \<le> NF \<and> NF \<le> L \<and> L = length xs div nat n + (if length xs mod nat n > 0 then 1 else 0) \<and>
           map length chunks = replicate NF F @ replicate (L - NF) (F - 1)"
proof -
  define N where "N = length xs"
  define L where "L = N div nat n + (if N mod nat n > 0 then 1 else 0)"
  define F where "F = N div L + (if N mod L > 0 then 1 else 0)"
  define P where "P = F - 1"
  define NF where "NF = N - P * L"
  define NP where "NP = L - NF"
  have N1: "1 \<le> N" using assms(1) by (simp add: N_def)
  have n1: "1 \<le> nat n" using assms(2) by simp
  have L1: "1 \<le> L" unfolding L_def by (rule ceil_div_bounds(1) [OF N1 n1])
  have F1: "1 \<le> F" unfolding F_def by (rule ceil_div_bounds(1) [OF N1 L1])
  have lo: "P * L < N" unfolding P_def F_def by (rule ceil_div_bounds(2) [OF N1 L1])
  have hi: "N \<le> F * L" unfolding F_def by (rule ceil_div_bounds(3) [OF N1 L1])
  have FP: "F = P + 1" using F1 by (simp add: P_def)
  have NF1: "1 \<le> NF" using lo by (simp add: NF_def)
  have "N \<le> P * L + L" using hi by (simp add: FP)
  then have NFL: "NF \<le> L" by (simp add: NF_def)
  have NFsum: "NF + P * L = N" using lo by (simp add: NF_def)
  have "NF * F + NP * P = NF + (NF * P + (L - NF) * P)" by (simp add: FP NP_def algebra_simps)
  also have "NF * P + (L - NF) * P = L * P" using NFL by (simp add: add_mult_distrib [symmetric])
  finally have total: "NF * F + NP * P = N" using NFsum by (simp add: mult.commute)
  let ?chunks = "take_chunks NF F xs @ take_chunks NP P (drop (NF * F) xs)"
  have ce: "chunked_even xs n = Inr ?chunks"
    using assms by (simp add: chunked_even_def Let_def N_def L_def F_def P_def NF_def NP_def)
  have cc: "concat ?chunks = xs"
  proof -
    have "concat ?chunks = take (NF * F) xs @ take (NP * P) (drop (NF * F) xs)"
      by (simp add: concat_take_chunks)
    also have "\<dots> = take (NF * F + NP * P) xs" by (simp add: take_add)
    also have "\<dots> = xs" using total by (simp add: N_def)
    finally show ?thesis .
  qed
  have l1: "map length (take_chunks NF F xs) = replicate NF F"
    using total by (intro length_take_chunks) (simp add: N_def [symmetric])
  have l2: "map length (take_chunks NP P (drop (NF * F) xs)) = replicate NP P"
    using total by (intro length_take_chunks) (simp add: N_def [symmetric])
  have "map length ?chunks = replicate NF F @ replicate (L - NF) (F - 1)"
    using l1 l2 by (simp add: NP_def P_def)
  with ce cc F1 NF1 NFL show ?thesis
    unfolding L_def N_def by blast
qed


lemma ex_unique_times: "unique_times ex_series = [1, 2, 3, 4, 5]"
  by (simp add: unique_times_def ex_series_def ex_padded_def)

lemma ex_time_chunks: "time_chunks ex_series 3 = Inr [[1, 2, 3], [4, 5]]"
  by code_simp

text \<open>
  Claim C2, for a chunk size limit of at least 1. When the column has at least one
  timestamp, the partition of its unique timestamps exists, its chunks concatenated in
  order are exactly the unique timestamps (so their lengths sum to the number of time
  steps), and any two chunk lengths differ by at most 1: the largest and the smallest
  differ by at most 1.
\<close>

theorem time_chunks_even_partition:
  assumes "1 \<le> length (unique_times s)" and "1 \<le> n"
  shows "\<exists>chunks. time_chunks s n = Inr chunks \<and> chunks \<noteq> [] \<and>
           concat chunks = unique_times s \<and>
           sum_list (map length chunks) = length (unique_times s) \<and>
           (\<forall>a\<in>set chunks. \<forall>b\<in>set chunks. length a \<le> length b + 1) \<and>
           Max (length ` set chunks) - Min (length ` set chunks) \<le> 1"
proof -
  from chunked_even_shape [OF assms] obtain chunks F NF L where
    ce: "chunked_even (unique_times s) n = Inr chunks" and cc: "concat chunks = unique_times s"
    and F1: "1 \<le> F" and NF1: "1 \<le> NF"
    and len: "map length chunks = replicate NF F @ replicate (L - NF) (F - 1)"
    by blast
  have ne: "chunks \<noteq> []" using len NF1 by (cases chunks) auto
  have sizes: "length ` set chunks \<subseteq> {F - 1, F}"
  proof -
    have "length ` set chunks = set (map length chunks)" by simp
    also have "\<dots> \<subseteq> {F - 1, F}" unfolding len by auto
    finally show ?thesis .
  qed
  have pair: "length a \<le> length b + 1" if "a \<in> set chunks" and "b \<in> set chunks" for a b
  proof -
    from that sizes have "length a \<in> {F - 1, F}" and "length b \<in> {F - 1, F}" by blast+
    then show ?thesis by auto
  qed
  have fin: "finite (length ` set chunks)" and nonempty: "length ` set chunks \<noteq> {}"
    using ne by auto
  have "Max (length ` set chunks) \<in> length ` set chunks"
    and "Min (length ` set chunks) \<in> length ` set chunks"
    using fin nonempty by (auto intro: Max_in Min_in)
  with sizes have "Max (length ` set chunks) \<in> {F - 1, F}" and "Min (length ` set chunks) \<in> {F - 1, F}"
    by blast+
  then have mm: "Max (length ` set chunks) - Min (length ` set chunks) \<le> 1" by auto
  have "sum_list (map length chunks) = length (concat chunks)" by (simp add: length_concat)
  with cc have sum: "sum_list (map length chunks) = length (unique_times s)" by simp
  show ?thesis
    using ce ne cc sum pair mm by (auto simp: time_chunks_def)
qed


theorem time_chunks_even_partition_witness:
  "1 \<le> length (unique_times ex_series) \<and> (1::int) \<le> 3 \<and>
   time_chunks ex_series 3 = Inr [[1, 2, 3], [4, 5]] \<and>
   concat [[1, 2, 3], [4, 5]] = unique_times ex_series"
proof -
  have n: "1 \<le> length (unique_times ex_series)" by (simp add: ex_unique_times)
  from time_chunks_even_partition [OF n, of 3] obtain chunks where
    "time_chunks ex_series 3 = Inr chunks" and "concat chunks = unique_times ex_series"
    by auto
  with n show ?thesis by (simp add: ex_time_chunks)
qed


text \<open>
  With a chunk size limit of 0, which \<open>array_col_to_zarr\<close> computes when the budget
  holds less than one ping, there is no partition: the chunking raises
  ZeroDivisionError.
\<close>

theorem time_chunks_zero_limit:
  "1 \<le> length (unique_times ex_series) \<and> time_chunks ex_series 0 = Inl ZeroDivisionError"
  by (simp add: time_chunks_def ex_unique_times chunked_even_def)


section \<open>Padded Multi-Index Builder\<close>

lemma set_unique [simp]: "set (unique xs) = set xs"
  by (induction xs rule: unique.induct) auto


lemma distinct_unique [simp]: "distinct (unique xs)"
  by (induction xs rule: unique.induct) auto


lemma unique_distinct_id: "distinct xs \<Longrightarrow> unique xs = xs"
proof (induction xs)
  case Nil
  show ?case by simp
next
  case (Cons x xs)
  then have "filter (\<lambda>y. y \<noteq> x) xs = xs" by (auto simp: filter_id_conv)
  with Cons show ?case by simp
qed


lemma unique_append:
  "unique (xs @ ys) = unique xs @ unique (filter (\<lambda>y. y \<notin> set xs) ys)"
proof (induction xs arbitrary: ys rule: unique.induct)
  case 1
  show ?case by simp
next
  case (2 x xs)
  have "filter (\<lambda>y. y \<notin> set (filter (\<lambda>y. y \<noteq> x) xs)) (filter (\<lambda>y. y \<noteq> x) ys)
          = filter (\<lambda>y. y \<notin> set (x # xs)) ys"
    by (auto intro: filter_cong)
  with "2.IH" [of "filter (\<lambda>y. y \<noteq> x) ys"] show ?case by simp
qed


lemma unique_replicate: "0 < n \<Longrightarrow> unique (replicate n x) = [x]"
  by (cases n) (auto simp: filter_empty_conv)


lemma map_fst_product: "map fst (List.product xs ys) = concat (map (\<lambda>x. replicate (length ys) x) xs)"
  by (induction xs) (auto simp: comp_def map_replicate_const)


lemma unique_fst_product:
  assumes "distinct xs" and "ys \<noteq> []"
  shows "unique (map fst (List.product xs ys)) = xs"
  using assms(1)
proof (induction xs)
  case Nil
  show ?case by simp
next
  case (Cons x xs)
  have "filter (\<lambda>y. y \<notin> set (map (fst \<circ> Pair x) ys)) (map fst (List.product xs ys))
          = map fst (List.product xs ys)"
    using Cons.prems by (auto simp: filter_id_conv)
  moreover have "unique (map (fst \<circ> Pair x) ys) = [x]"
    using assms(2) unique_replicate [of "length ys" x] by (simp add: comp_def map_replicate_const)
  ultimately show ?case using Cons by (simp add: unique_append)
qed


lemma unique_snd_product:
  assumes "distinct ys" and "xs \<noteq> []"
  shows "unique (map snd (List.product xs ys)) = ys"
proof -
  obtain x xs' where xs: "xs = x # xs'" using assms(2) by (cases xs) auto
  have "filter (\<lambda>y. y \<notin> set ys) (map snd (List.product xs' ys)) = []"
    by (auto simp: filter_empty_conv)
  then show ?thesis
    using assms(1) by (simp add: xs unique_append comp_def unique_distinct_id)
qed


lemma map_of_tabulate:
  "k \<in> set ks \<Longrightarrow> map_of (map (\<lambda>k. (k, f k)) ks) k = Some (f k)"
  by (induction ks) auto


lemma set_index_columns [simp]:
  "set_index (map (\<lambda>((t, c), v). (t, c, v)) out) = out"
  by (simp add: set_index_def comp_def case_prod_beta)

lemma map_fst_set_index: "map fst (set_index df) = map (\<lambda>r. (fst r, fst (snd r))) df"
  by (simp add: set_index_def comp_def case_prod_beta)

lemma set_multi_index_Inr:
  "set_multi_index (Columns df) = Inr res \<longleftrightarrow>
     distinct (map fst (set_index df)) \<and>
     res = Indexed
             (map (\<lambda>k. (k, case map_of (set_index df) k of Some v \<Rightarrow> v | None \<Rightarrow> NaNCell))
                (List.product (unique (map fst df)) (unique (map (\<lambda>r. fst (snd r)) df))))"
  by (auto simp: set_multi_index_def reindex_def bind_err_def Let_def)

text \<open>
  Claim C4. For a record set keyed by (timestamp, channel), that is with no pair
  occurring twice, the builder returns a frame whose index is the product of the
  unique timestamps and the unique channels: its size is the number of unique
  timestamps times the number of unique channels, every pair appears exactly once,
  every input record is found under its pair, and every pair absent from the input
  holds the padding marker. (A pair occurring twice makes \<open>reindex\<close> raise.)
\<close>

theorem set_multi_index_product:
  assumes "distinct (map (\<lambda>r. (fst r, fst (snd r))) df)"
  shows "\<exists>out. set_multi_index (Columns df) = Inr (Indexed out) \<and>
           map fst out = List.product (unique (map fst df)) (unique (map (\<lambda>r. fst (snd r)) df)) \<and>
           set (map fst out) = set (map fst df) \<times> set (map (\<lambda>r. fst (snd r)) df) \<and>
           distinct (map fst out) \<and>
           length out = card (set (map fst df)) * card (set (map (\<lambda>r. fst (snd r)) df)) \<and>
           (\<forall>t c v. (t, c, v) \<in> set df \<longrightarrow> ((t, c), v) \<in> set out) \<and>
           (\<forall>k\<in>set (map fst out). k \<notin> set (map (\<lambda>r. (fst r, fst (snd r))) df)
                \<longrightarrow> (k, NaNCell) \<in> set out)"
proof -
  let ?ts = "unique (map fst df)" and ?cs = "unique (map (\<lambda>r. fst (snd r)) df)"
  let ?f = "\<lambda>k. case map_of (set_index df) k of Some v \<Rightarrow> v | None \<Rightarrow> NaNCell"
  let ?out = "map (\<lambda>k. (k, ?f k)) (List.product ?ts ?cs)"
  have d: "distinct (map fst (set_index df))" using assms by (simp add: map_fst_set_index)
  have out: "set_multi_index (Columns df) = Inr (Indexed ?out)"
    using d by (simp add: set_multi_index_Inr)
  have keys: "map fst ?out = List.product ?ts ?cs" by (simp add: comp_def)
  have len: "length ?out = card (set (map fst df)) * card (set (map (\<lambda>r. fst (snd r)) df))"
    using distinct_card [of ?ts] distinct_card [of ?cs] by simp
  have present: "((t, c), v) \<in> set ?out" if "(t, c, v) \<in> set df" for t c v
  proof -
    from that have "((t, c), v) \<in> set (set_index df)" by (force simp: set_index_def)
    with d have "map_of (set_index df) (t, c) = Some v" by simp
    moreover from that have "(t, c) \<in> set (List.product ?ts ?cs)" by force
    ultimately show ?thesis by force
  qed
  have absent: "(k, NaNCell) \<in> set ?out"
    if "k \<in> set (map fst ?out)" and "k \<notin> set (map (\<lambda>r. (fst r, fst (snd r))) df)" for k
  proof -
    from that(2) have "map_of (set_index df) k = None"
      by (simp add: map_of_eq_None_iff map_fst_set_index [symmetric])
    with that(1) show ?thesis by (force simp: keys)
  qed
  show ?thesis
    using out keys len present absent
    by (intro exI [of _ ?out]) (auto simp: distinct_product simp del: set_map)
qed

theorem set_multi_index_product_witness:
  "\<exists>out. set_multi_index (Columns ex_df) = Inr (Indexed out) \<and> length out = 10 \<and>
         ((3, 1), NdArray [Num 31, Num 32]) \<in> set out \<and> ((3, 2), NaNCell) \<in> set out"
proof -
  have d: "distinct (map (\<lambda>r. (fst r, fst (snd r))) ex_df)" by (simp add: ex_df_def)
  have ts: "set (map fst ex_df) = {1, 2, 3, 4, 5}" by (auto simp: ex_df_def)
  have cs: "set (map (\<lambda>r. fst (snd r)) ex_df) = {1, 2}" by (auto simp: ex_df_def)
  from set_multi_index_product [OF d] obtain out where
    out: "set_multi_index (Columns ex_df) = Inr (Indexed out)"
    and keys: "set (map fst out) = set (map fst ex_df) \<times> set (map (\<lambda>r. fst (snd r)) ex_df)"
    and len: "length out = card (set (map fst ex_df)) * card (set (map (\<lambda>r. fst (snd r)) ex_df))"
    and present: "\<forall>t c v. (t, c, v) \<in> set ex_df \<longrightarrow> ((t, c), v) \<in> set out"
    and absent: "\<forall>k\<in>set (map fst out). k \<notin> set (map (\<lambda>r. (fst r, fst (snd r))) ex_df)
                  \<longrightarrow> (k, NaNCell) \<in> set out"
    by blast
  have "length out = 10" unfolding len ts cs by simp
  moreover have "((3, 1), NdArray [Num 31, Num 32]) \<in> set out"
    using present by (simp add: ex_df_def)
  moreover have "(3, 2) \<in> set (map fst out)" unfolding keys ts cs by simp
  then have "((3, 2), NaNCell) \<in> set out"
    using absent by (auto simp: ex_df_def)
  ultimately show ?thesis using out by blast
qed

text \<open>
  Claim C5, as the code has it. Run on its own padded output once the index levels
  are columns again (\<open>reset_index\<close>), the builder returns the same padded frame: the
  index does not grow and every cell is kept.
\<close>

theorem set_multi_index_idempotent:
  assumes "set_multi_index df = Inr padded"
  shows "set_multi_index (reset_index padded) = Inr padded"
proof -
  from assms obtain rows where df: "df = Columns rows"
    by (cases df) (auto simp: set_multi_index_def)
  let ?ts = "unique (map fst rows)" and ?cs = "unique (map (\<lambda>r. fst (snd r)) rows)"
  let ?f = "\<lambda>k. case map_of (set_index rows) k of Some v \<Rightarrow> v | None \<Rightarrow> NaNCell"
  define out where "out = map (\<lambda>k. (k, ?f k)) (List.product ?ts ?cs)"
  from assms have padded: "padded = Indexed out"
    by (simp add: df set_multi_index_Inr out_def)
  let ?cols = "map (\<lambda>((t, c), v). (t, c, v)) out"
  have reset: "reset_index padded = Columns ?cols" by (simp add: padded reset_index_def)
  show ?thesis
  proof (cases "rows = []")
    case True
    then show ?thesis
      by (simp add: padded reset_index_def set_multi_index_Inr out_def set_index_def)
  next
    case False
    then have ne: "?ts \<noteq> []" "?cs \<noteq> []" by (cases rows; simp)+
    have c1: "map fst ?cols = map fst (List.product ?ts ?cs)"
      by (simp add: out_def comp_def)
    have c2: "map (\<lambda>r. fst (snd r)) ?cols = map snd (List.product ?ts ?cs)"
      by (simp add: out_def comp_def)
    have u1: "unique (map fst ?cols) = ?ts"
      by (simp only: c1 unique_fst_product [OF distinct_unique ne(2)])
    have u2: "unique (map (\<lambda>r. fst (snd r)) ?cols) = ?cs"
      by (simp only: c2 unique_snd_product [OF distinct_unique ne(1)])
    have keys: "map fst out = List.product ?ts ?cs" by (simp add: out_def comp_def)
    have d: "distinct (map fst out)" by (simp add: keys distinct_product)
    have same: "map (\<lambda>k. (k, case map_of out k of Some v \<Rightarrow> v | None \<Rightarrow> NaNCell))
                  (List.product ?ts ?cs) = out"
      unfolding out_def by (rule map_cong) (auto simp: map_of_tabulate)
    have "set_multi_index (Columns ?cols) = Inr (Indexed out)"
      unfolding set_multi_index_Inr set_index_columns u1 u2
      using d same by simp
    then show ?thesis by (simp add: padded reset_index_def)
  qed
qed

theorem set_multi_index_idempotent_witness:
  "set_multi_index (Columns ex_df) = Inr (Indexed ex_padded) \<and>
   set_multi_index (reset_index (Indexed ex_padded)) = Inr (Indexed ex_padded)"
  using set_multi_index_idempotent [of "Columns ex_df" "Indexed ex_padded"]
  by (simp add: set_multi_index_def reindex_def set_index_def bind_err_def ex_df_def
        ex_padded_def Let_def)

text \<open>
  The claim as stated fails: handed its padded output as it is, the builder looks for
  the columns \<open>timestamp\<close> and \<open>channel\<close>, which are index levels by now, and raises
  KeyError.
\<close>

theorem set_multi_index_on_own_output:
  "set_multi_index (Columns ex_df) = Inr (Indexed ex_padded) \<and>
   set_multi_index (Indexed ex_padded) = Inl KeyError"
  by (simp add: set_multi_index_def reindex_def set_index_def bind_err_def ex_df_def
        ex_padded_def Let_def)

section \<open>Store Combine Engine: the unassigned file groups\<close>

text \<open>
  Claim C10, for a \<open>save_path\<close> that is \<open>None\<close> or a string and a non-empty list of
  stores to combine. With sonar model EK60 or AZFP, at least 2 source files and a
  passing consistency check, \<open>combine_files\<close> reaches the loop over \<open>file_groups\<close>,
  which only the EK80 branch assigns, and fails with UnboundLocalError; only the line
  announcing the combine has been printed, the file system is untouched.
\<close>

theorem combine_files_unbound_file_groups:
  assumes "sonar_model self = Some ''EK60'' \<or> sonar_model self = Some ''AZFP''"
    and "source_file self = Some sf" and "2 \<le> length sf" and "check self"
    and "save_path \<noteq> PathOther"
    and "(case src_files of None \<Rightarrow> output_file self | Some l \<Rightarrow> Some l) = Some (f # rest)"
  shows "combine_files_by check xr_combine junk self src_files save_path remove_orig w =
           (Inl UnboundLocalError, w\<lparr>stdout := stdout w @ [''combining files...'']\<rparr>)"
  using assms
  by (cases save_path)
     (auto simp: combine_files_by_def bind_io_def print_def return_io_def raise_io_def
                 resolve_save_path_def first_src_def first_file_def Let_def)


theorem combine_files_unbound_file_groups_witness:
  "combine_files xr_concat ex_junk ex_convert_ek60 None PathNone True ex_world =
     (Inl UnboundLocalError, ex_world\<lparr>stdout := [''combining files...'']\<rparr>)"
  using combine_files_unbound_file_groups [of ex_convert_ek60 "[''a.raw'', ''b.raw'']"
          check_param_consistency PathNone None "''a.nc''" "[''b.nc'']" xr_concat ex_junk True ex_world]
  by (simp add: combine_files_def ex_convert_ek60_def ex_convert_def check_param_consistency_def
        ex_world_def)


text \<open>
  Without that condition another error comes first: a \<open>save_path\<close> that is neither
  \<open>None\<close> nor a string raises ValueError, an empty list of stores IndexError.
\<close>

theorem combine_files_other_errors_first:
  "fst (combine_files xr_concat ex_junk ex_convert_ek60 None PathOther True ex_world) = Inl ValueError
   \<and> fst (combine_files xr_concat ex_junk ex_convert_ek60 (Some []) PathNone True ex_world) = Inl IndexError"
  by code_simp


section \<open>Store Combine Engine: deleting the sources\<close>

lemma remove_result:
  "remove p w = (r, w') \<Longrightarrow>
     (case r of Inl e \<Rightarrow> w' = w
      | Inr u \<Rightarrow> w' = w\<lparr>fs := (fs w)(p := None)\<rparr>)"
  by (auto simp: remove_def Let_def split: option.splits node.splits if_splits)


lemma remove_files_append:
  "remove_files (qs @ rs) w =
     (case remove_files qs w of (Inl e, w') \<Rightarrow> (Inl e, w') | (Inr u, w') \<Rightarrow> remove_files rs w')"
proof (induction qs arbitrary: w)
  case Nil
  show ?case by (simp add: return_io_def)
next
  case (Cons q qs)
  show ?case
    by (cases "remove q w") (auto simp: bind_io_def Cons.IH split: sum.splits)
qed


lemma remove_files_ok:
  "remove_files qs w = (Inr u, w') \<Longrightarrow>
     (\<forall>q\<in>set qs. fs w' q = None) \<and> (\<forall>r. r \<notin> set qs \<longrightarrow> fs w' r = fs w r) \<and>
     stdout w' = stdout w"
proof (induction qs arbitrary: w)
  case Nil
  then show ?case by (simp add: return_io_def)
next
  case (Cons q qs)
  obtain r w1 where rm: "remove q w = (r, w1)" by (cases "remove q w")
  with Cons.prems obtain v where r: "r = Inr v" and rest: "remove_files qs w1 = (Inr u, w')"
    by (cases r) (auto simp: bind_io_def)
  from remove_result [OF rm] r have w1: "w1 = w\<lparr>fs := (fs w)(q := None)\<rparr>" by simp
  from Cons.IH [OF rest] have
    a: "\<forall>x\<in>set qs. fs w' x = None" and b: "\<forall>x. x \<notin> set qs \<longrightarrow> fs w' x = fs w1 x"
    and c: "stdout w' = stdout w1" by auto
  show ?case
  proof (intro conjI ballI allI impI)
    fix x assume "x \<in> set (q # qs)"
    then show "fs w' x = None" using a b w1 by (cases "x \<in> set qs") auto
  next
    fix x assume "x \<notin> set (q # qs)"
    then show "fs w' x = fs w x" using b w1 by auto
  next
    show "stdout w' = stdout w" using c w1 by simp
  qed
qed


lemma combine_files_by_remove_orig:
  assumes "combine_files_by check xr_combine junk self src_files save_path False w = (Inr True, w1)"
    and "(case src_files of None \<Rightarrow> output_file self | Some l \<Rightarrow> Some l) = Some srcs"
  shows "combine_files_by check xr_combine junk self src_files save_path True w =
           bind_io (remove_files (srcs @ extra_files self)) (\<lambda>_. return_io True) w1"
  using assms
  by (auto simp: combine_files_by_def bind_io_def return_io_def raise_io_def print_def Let_def
           split: option.splits if_splits prod.splits sum.splits)


text \<open>
  Claim C9, as the code has it. After a successful combine with deletion requested,
  the source stores and the extra files are removed one after the other in list
  order. The first removal that fails raises its error out of \<open>combine_files\<close>: the
  paths before it are gone, every other path is as the combine left it, so the files
  after the failing one are not attempted.
\<close>

theorem combine_files_deletion_stops_at_first_failure:
  assumes ok: "combine_files_by check xr_combine junk self src_files save_path False w = (Inr True, w1)"
    and srcs: "(case src_files of None \<Rightarrow> output_file self | Some l \<Rightarrow> Some l) = Some srcs"
    and parts: "srcs @ extra_files self = qs @ p # rs"
    and removed: "remove_files qs w1 = (Inr (), w2)"
    and fail: "fst (remove p w2) = Inl e"
  shows "combine_files_by check xr_combine junk self src_files save_path True w = (Inl e, w2) \<and>
         (\<forall>q\<in>set qs. fs w2 q = None) \<and> (\<forall>r. r \<notin> set qs \<longrightarrow> fs w2 r = fs w1 r)"
proof -
  obtain w3 where rm: "remove p w2 = (Inl e, w3)" using fail by (cases "remove p w2") auto
  from remove_result [OF rm] have "w3 = w2" by simp
  with rm have rm2: "remove p w2 = (Inl e, w2)" by simp
  have "remove_files (qs @ p # rs) w1 = (Inl e, w2)"
    by (simp add: remove_files_append removed bind_io_def rm2)
  then have "combine_files_by check xr_combine junk self src_files save_path True w = (Inl e, w2)"
    by (simp add: combine_files_by_remove_orig [OF ok srcs] parts bind_io_def)
  with remove_files_ok [OF removed] show ?thesis by simp
qed


theorem combine_files_deletion_witness:
  "fst (combine_files_by check_param_consistency xr_concat ex_junk ex_convert None PathNone
          True ex_world_locked) = Inl PermissionError \<and>
   fs (snd (combine_files_by check_param_consistency xr_concat ex_junk ex_convert None
          PathNone True ex_world_locked)) ''a_cw.nc'' =
   fs (snd (combine_files_by check_param_consistency xr_concat ex_junk ex_convert None
          PathNone False ex_world_locked)) ''a_cw.nc''"
proof -
  let ?run = "\<lambda>r. combine_files_by check_param_consistency xr_concat ex_junk ex_convert
                    None PathNone r ex_world_locked"
  let ?qs = "[''a.nc'']"
  let ?w1 = "snd (?run False)"
  let ?w2 = "snd (remove_files ?qs ?w1)"
  have "fst (?run False) = Inr True" by code_simp
  then have ok: "?run False = (Inr True, ?w1)" by (simp add: prod_eq_iff)
  have srcs: "(case None of None \<Rightarrow> output_file ex_convert | Some l \<Rightarrow> Some l)
                = Some [''a.nc'', ''b.nc'']"
    by (simp add: ex_convert_def)
  have parts: "[''a.nc'', ''b.nc''] @ extra_files ex_convert
                 = ?qs @ ''b.nc'' # [''a_cw.nc'', ''b_cw.nc'']"
    by (simp add: ex_convert_def)
  have "fst (remove_files ?qs ?w1) = Inr ()" by code_simp
  then have removed: "remove_files ?qs ?w1 = (Inr (), ?w2)" by (simp add: prod_eq_iff)
  have fail: "fst (remove ''b.nc'' ?w2) = Inl PermissionError" by code_simp
  from combine_files_deletion_stops_at_first_failure [OF ok srcs parts removed fail]
  show ?thesis by simp
qed

text \<open>
  The claim as stated fails: with \<open>b.nc\<close> readable but not removable, the combine
  succeeds, \<open>a.nc\<close> is removed, the removal of \<open>b.nc\<close> raises PermissionError out of
  \<open>combine_files\<close>, and the extra files \<open>a_cw.nc\<close> and \<open>b_cw.nc\<close>, next in the list,
  are still there.
\<close>

theorem combine_files_deletion_aborts:
  "fst (combine_files xr_concat ex_junk ex_convert None PathNone False ex_world_locked) = Inr True \<and>
   fst (combine_files xr_concat ex_junk ex_convert None PathNone True ex_world_locked)
     = Inl PermissionError \<and>
   \<not> path_exists (snd (combine_files xr_concat ex_junk ex_convert None PathNone True
                        ex_world_locked)) ''a.nc'' \<and>
   path_exists (snd (combine_files xr_concat ex_junk ex_convert None PathNone True
                        ex_world_locked)) ''a_cw.nc'' \<and>
   path_exists (snd (combine_files xr_concat ex_junk ex_convert None PathNone True
                        ex_world_locked)) ''b_cw.nc''"
  by code_simp

section \<open>Store Combine Engine: the vendor block\<close>

text \<open>
  Claim C7 asks that the filter coefficients of the first source reach the combined
  store with their values. \<open>copy_vendor\<close> recreates attributes, dimensions and
  variables but writes \<open>np.empty\<close> into each variable: combining the example stores
  succeeds, the source's coefficients are 10 and 11, and the combined store holds what
  the uninitialised memory held, 99 and 100.
\<close>

theorem combine_files_vendor_values_not_copied:
  "fst (combine_files xr_concat ex_junk ex_convert None PathNone False ex_world) = Inr True \<and>
   map_option variables (vendor_of ex_world ''a.nc'') =
     Some [(''filter'', \<lparr>var_dtype = ''complex64'', var_dims = [''n''], var_data = [10, 11]\<rparr>)] \<and>
   map_option variables
     (vendor_of (snd (combine_files xr_concat ex_junk ex_convert None PathNone False ex_world))
        ''a[combined].nc'') =
     Some [(''filter'', \<lparr>var_dtype = ''complex64'', var_dims = [''n''], var_data = [99, 100]\<rparr>)]"
  by code_simp

end
